theory Spec2Isabelle
  imports Main "HOL-Library.Word" "HOL-Library.Signed_Division" "HOL-Library.Multiset"
begin

unbundle bit_operations_syntax

section \<open>Machine integers of the target\<close>

text \<open>
  The driver is C for an STM32 (32-bit \<open>int\<close>, GCC). Values are modelled as \<open>int\<close>, and every
  conversion to a narrower C type is written out as the reduction modulo \<open>2 ^ w\<close> that GCC
  performs. Right shift of a signed value is arithmetic (\<open>drop_bit\<close> on \<open>int\<close>), signed
  division truncates towards zero (\<open>sdiv\<close>). Arithmetic in \<open>int32_t\<close> wraps around
  (\<open>int32_t\<close>), which is what the Cortex-M instructions compute; the sums of squares of the
  variance gate (over 12-bit conversions) and the sums of the smoother (over at most 10
  \<open>int16_t\<close> values) stay inside \<open>int32_t\<close>.
\<close>

definition int16_t :: "int \<Rightarrow> int" where
  "int16_t v = (v + 32768) mod 65536 - 32768"

definition int32_t :: "int \<Rightarrow> int" where
  "int32_t v = (v + 2147483648) mod 4294967296 - 2147483648"

definition uint32_t :: "int \<Rightarrow> int" where
  "uint32_t v = v mod 4294967296"

definition uint8_t :: "nat \<Rightarrow> nat" where
  "uint8_t n = n mod 256"

section \<open>Configuration (xpt2046.h, st7789.h, xpt2046.c)\<close>

definition XPT2046_X_MIN :: int where "XPT2046_X_MIN = 160"
definition XPT2046_Y_MIN :: int where "XPT2046_Y_MIN = 215"
definition XPT2046_X_MAX :: int where "XPT2046_X_MAX = 3870"
definition XPT2046_Y_MAX :: int where "XPT2046_Y_MAX = 3910"

definition XPT2046_X_INV :: int where "XPT2046_X_INV = 0"
definition XPT2046_Y_INV :: int where "XPT2046_Y_INV = 0"
definition XPT2046_XY_SWAP :: int where "XPT2046_XY_SWAP = 0"

definition XPT2046_TOUCH_THRESHOLD :: int where "XPT2046_TOUCH_THRESHOLD = 500"
definition XPT2046_READ_SAMPLES :: nat where "XPT2046_READ_SAMPLES = 7"
definition XPT2046_AVG_SAMPLES :: nat where "XPT2046_AVG_SAMPLES = 10"
definition XPT2046_JUMP_THRESHOLD :: int where "XPT2046_JUMP_THRESHOLD = 80"
definition XPT2046_MAX_INVALID_SAMPLES :: nat where "XPT2046_MAX_INVALID_SAMPLES = 3"

text \<open>\<open>ST7789_240x320\<close> with \<open>ST7789_ROTATION 3\<close>.\<close>

definition ST7789_WIDTH :: int where "ST7789_WIDTH = 320"
definition ST7789_HEIGHT :: int where "ST7789_HEIGHT = 240"

section \<open>Driver state (the file-scope statics of xpt2046.c)\<close>

record calibration_t =
  x_min :: int
  y_min :: int
  x_max :: int
  y_max :: int

record xpt2046 =
  avg_buf_x :: "int list"
  avg_buf_y :: "int list"
  avg_count :: nat
  calibration :: calibration_t
  screen_width :: int
  screen_height :: int
  last_valid_x :: int
  last_valid_y :: int
  invalid_count :: nat

text \<open>The static initialisers: the state before \<open>XPT2046_Init\<close> has run.\<close>

definition power_on :: xpt2046 where
  "power_on =
     \<lparr>avg_buf_x = replicate XPT2046_AVG_SAMPLES 0,
      avg_buf_y = replicate XPT2046_AVG_SAMPLES 0,
      avg_count = 0,
      calibration = \<lparr>x_min = XPT2046_X_MIN, y_min = XPT2046_Y_MIN,
                     x_max = XPT2046_X_MAX, y_max = XPT2046_Y_MAX\<rparr>,
      screen_width = ST7789_WIDTH,
      screen_height = ST7789_HEIGHT,
      last_valid_x = - 1,
      last_valid_y = - 1,
      invalid_count = 0\<rparr>"

text \<open>
  Undefined behaviour of the C code is a value of the model: a division by zero, an access
  outside an array, a read of an uninitialised array cell.
\<close>

datatype fault = DivideByZero | OutOfBounds | Uninitialised

section \<open>The SPI bus during one call\<close>

text \<open>
  \<open>HAL_SPI_Receive\<close> fills \<open>rx_data[0]\<close> and \<open>rx_data[1]\<close>. The bus of one call of the driver
  is the pair of bytes received in answer to each command: one exchange each for
  \<open>CMD_Z1_READ\<close> and \<open>CMD_Z2_READ\<close>, and the \<open>i\<close>-th exchange for \<open>CMD_X_READ\<close> and
  \<open>CMD_Y_READ\<close>.
\<close>

type_synonym rx_data = "8 word \<times> 8 word"

record touch_bus =
  rx_z1 :: rx_data
  rx_z2 :: rx_data
  rx_x :: "nat \<Rightarrow> rx_data"
  rx_y :: "nat \<Rightarrow> rx_data"

section \<open>Private functions\<close>

text \<open>\<open>return (rx_data[0] << 8) | rx_data[1];\<close> converted to the return type \<open>int16_t\<close>.\<close>

definition XPT2046_SendCommand :: "rx_data \<Rightarrow> int" where
  "XPT2046_SendCommand rx = int16_t (push_bit 8 (uint (fst rx)) OR uint (snd rx))"

text \<open>The expression \<open>XPT2046_SendCommand(cmd) >> 3\<close>, stored in an \<open>int16_t\<close>.\<close>

definition sample_axis :: "rx_data \<Rightarrow> int" where
  "sample_axis rx = int16_t (drop_bit 3 (XPT2046_SendCommand rx))"

text \<open>\<open>XPT2046_IRQ_PIN\<close> is not defined, so there is no interrupt-line path.\<close>

definition XPT2046_IsPressed :: "touch_bus \<Rightarrow> bool" where
  "XPT2046_IsPressed bus =
     (let z1 = sample_axis (rx_z1 bus);
          z2 = sample_axis (rx_z2 bus)
      in if z1 < 50 then False
         else let z = int16_t (z2 - z1) in z > XPT2046_TOUCH_THRESHOLD)"

definition XPT2046_ApplyCalibration :: "xpt2046 \<Rightarrow> int \<times> int \<Rightarrow> fault + (int \<times> int)" where
  "XPT2046_ApplyCalibration s p =
     (let c = calibration s;
          (x, y) = (if XPT2046_XY_SWAP \<noteq> 0 then (snd p, fst p) else p);
          x = (if x < x_min c then x_min c else x);
          y = (if y < y_min c then y_min c else y);
          x = (if x > x_max c then x_max c else x);
          y = (if y > y_max c then y_max c else y);
          x = int16_t (x - x_min c);
          y = int16_t (y - y_min c)
      in if uint32_t (x_max c - x_min c) = 0 then Inl DivideByZero
         else if uint32_t (y_max c - y_min c) = 0 then Inl DivideByZero
         else
           let x = int16_t (uint32_t (uint32_t x * uint32_t (screen_width s))
                              div uint32_t (x_max c - x_min c));
               y = int16_t (uint32_t (uint32_t y * uint32_t (screen_height s))
                              div uint32_t (y_max c - y_min c));
               x = (if XPT2046_X_INV \<noteq> 0 then int16_t (screen_width s - 1 - x) else x);
               y = (if XPT2046_Y_INV \<noteq> 0 then int16_t (screen_height s - 1 - y) else y);
               x = (if x < 0 then 0 else x);
               y = (if y < 0 then 0 else y);
               x = (if x \<ge> int16_t (screen_width s) then int16_t (screen_width s - 1) else x);
               y = (if y \<ge> int16_t (screen_height s) then int16_t (screen_height s - 1) else y)
           in Inr (x, y))"

text \<open>
  \<open>XPT2046_Average\<close>: shift both buffers down by one, store the new point in cell 0, count
  it, and return the truncated mean of the first \<open>avg_count\<close> cells. The buffers are arrays
  of \<open>XPT2046_AVG_SAMPLES\<close> cells: a list of another length is not a state of the C program,
  and an \<open>avg_count\<close> above the array size makes the summing loop read outside the arrays.
\<close>

definition shift_down :: "int list \<Rightarrow> int list" where
  "shift_down buf = fold (\<lambda>i b. b[i := b ! (i - 1)]) (rev [1..<XPT2046_AVG_SAMPLES]) buf"

definition sum_first :: "nat \<Rightarrow> int list \<Rightarrow> int" where
  "sum_first n buf = fold (\<lambda>i acc. int32_t (acc + buf ! i)) [0..<n] 0"

definition XPT2046_Average :: "xpt2046 \<Rightarrow> int \<times> int \<Rightarrow> fault + ((int \<times> int) \<times> xpt2046)" where
  "XPT2046_Average s p =
     (if length (avg_buf_x s) \<noteq> XPT2046_AVG_SAMPLES
         \<or> length (avg_buf_y s) \<noteq> XPT2046_AVG_SAMPLES then Inl OutOfBounds
      else
        let buf_x = (shift_down (avg_buf_x s))[0 := fst p];
            buf_y = (shift_down (avg_buf_y s))[0 := snd p];
            n = (if avg_count s < XPT2046_AVG_SAMPLES then uint8_t (avg_count s + 1)
                 else avg_count s)
        in if n > XPT2046_AVG_SAMPLES then Inl OutOfBounds
           else
             let sum_x = sum_first n buf_x;
                 sum_y = sum_first n buf_y
             in Inr ((int16_t (sum_x sdiv int n), int16_t (sum_y sdiv int n)),
                     s\<lparr>avg_buf_x := buf_x, avg_buf_y := buf_y, avg_count := n\<rparr>))"

text \<open>
  \<open>median_filter\<close>: copy \<open>size\<close> cells of \<open>data\<close> into \<open>temp[XPT2046_READ_SAMPLES]\<close>, bubble
  sort the copy, return \<open>temp[size / 2]\<close>.
\<close>

definition bubble_swap :: "nat \<Rightarrow> int list \<Rightarrow> int list" where
  "bubble_swap j temp =
     (if temp ! j > temp ! (j + 1)
      then (let swap = temp ! j in temp[j := temp ! (j + 1), j + 1 := swap])
      else temp)"

definition bubble_inner :: "nat \<Rightarrow> nat \<Rightarrow> int list \<Rightarrow> int list" where
  "bubble_inner sz i temp = fold bubble_swap [0..<sz - i - 1] temp"

definition bubble_sort :: "nat \<Rightarrow> int list \<Rightarrow> int list" where
  "bubble_sort sz temp = fold (bubble_inner sz) [0..<sz - 1] temp"

definition median_filter :: "int list \<Rightarrow> nat \<Rightarrow> fault + int" where
  "median_filter data sz =
     (if sz > length data \<or> sz > XPT2046_READ_SAMPLES then Inl OutOfBounds
      else if sz = 0 then Inl Uninitialised
      else Inr (bubble_sort sz (take sz data) ! (sz div 2)))"

definition sum_diff :: "int list \<Rightarrow> int \<Rightarrow> int" where
  "sum_diff samples m =
     fold (\<lambda>i acc. let diff = int16_t (samples ! i - m) in int32_t (acc + int32_t (diff * diff)))
       [0..<XPT2046_READ_SAMPLES] 0"

definition XPT2046_ReadFiltered :: "touch_bus \<Rightarrow> fault + (bool \<times> int \<times> int)" where
  "XPT2046_ReadFiltered bus =
     (let x_samples = map (\<lambda>i. sample_axis (rx_x bus i)) [0..<XPT2046_READ_SAMPLES];
          y_samples = map (\<lambda>i. sample_axis (rx_y bus i)) [0..<XPT2046_READ_SAMPLES]
      in (case median_filter x_samples XPT2046_READ_SAMPLES of
            Inl e \<Rightarrow> Inl e
          | Inr x \<Rightarrow>
             (case median_filter y_samples XPT2046_READ_SAMPLES of
                Inl e \<Rightarrow> Inl e
              | Inr y \<Rightarrow>
                  (let std_dev_x = int16_t (sum_diff x_samples x sdiv int XPT2046_READ_SAMPLES);
                       std_dev_y = int16_t (sum_diff y_samples y sdiv int XPT2046_READ_SAMPLES)
                   in if std_dev_x > 10000 \<or> std_dev_y > 10000 then Inr (False, x, y)
                      else Inr (True, x, y)))))"

section \<open>Public functions\<close>

definition XPT2046_Init :: "xpt2046 \<Rightarrow> xpt2046" where
  "XPT2046_Init s =
     s\<lparr>avg_buf_x := replicate XPT2046_AVG_SAMPLES 0,
       avg_buf_y := replicate XPT2046_AVG_SAMPLES 0,
       avg_count := 0,
       last_valid_x := - 1,
       last_valid_y := - 1,
       invalid_count := 0\<rparr>"

text \<open>
  The tail of \<open>XPT2046_Read\<close>, which every accepting path reaches: smooth the point, store
  it as the last valid point, write it to the caller's \<open>*x\<close> and \<open>*y\<close>, return true.
\<close>

definition accept_sample ::
    "int \<times> int \<Rightarrow> xpt2046 \<Rightarrow> fault + (bool \<times> (int \<times> int) \<times> xpt2046)" where
  "accept_sample p s =
     (case XPT2046_Average s p of
        Inl e \<Rightarrow> Inl e
      | Inr ((ax, ay), s') \<Rightarrow> Inr (True, (ax, ay), s'\<lparr>last_valid_x := ax, last_valid_y := ay\<rparr>))"

text \<open>
  \<open>XPT2046_Read\<close>. The caller's \<open>*x\<close> and \<open>*y\<close> are the pair \<open>out\<close>; the result is the
  returned flag, the caller's pair after the call and the driver state after the call.
\<close>

definition XPT2046_Read ::
    "touch_bus \<Rightarrow> int \<times> int \<Rightarrow> xpt2046 \<Rightarrow> fault + (bool \<times> (int \<times> int) \<times> xpt2046)" where
  "XPT2046_Read bus out s =
     (if \<not> XPT2046_IsPressed bus then
        Inr (False, out,
             s\<lparr>avg_count := 0,
               avg_buf_x := replicate XPT2046_AVG_SAMPLES 0,
               avg_buf_y := replicate XPT2046_AVG_SAMPLES 0,
               last_valid_x := - 1,
               last_valid_y := - 1,
               invalid_count := 0\<rparr>)
      else
        (case XPT2046_ReadFiltered bus of
          Inl e \<Rightarrow> Inl e
        | Inr (reliable, mx, my) \<Rightarrow>
            if \<not> reliable then
              (let s1 = s\<lparr>invalid_count := uint8_t (invalid_count s + 1)\<rparr>
               in if invalid_count s1 \<ge> XPT2046_MAX_INVALID_SAMPLES
                  then Inr (False, out,
                            s1\<lparr>avg_count := 0, last_valid_x := - 1, last_valid_y := - 1\<rparr>)
                  else Inr (False, out, s1))
            else
              (case XPT2046_ApplyCalibration s (mx, my) of
                Inl e \<Rightarrow> Inl e
              | Inr (raw_x, raw_y) \<Rightarrow>
                  if last_valid_x s \<ge> 0 \<and> last_valid_y s \<ge> 0 then
                    (let dx = int32_t (raw_x - last_valid_x s);
                         dy = int32_t (raw_y - last_valid_y s);
                         distance_sq = int32_t (int32_t (dx * dx) + int32_t (dy * dy));
                         threshold_sq = int32_t (XPT2046_JUMP_THRESHOLD * XPT2046_JUMP_THRESHOLD)
                     in if distance_sq > threshold_sq then
                          (let s1 = s\<lparr>invalid_count := uint8_t (invalid_count s + 1)\<rparr>
                           in if invalid_count s1 \<ge> XPT2046_MAX_INVALID_SAMPLES
                              then accept_sample (raw_x, raw_y)
                                     (s1\<lparr>avg_count := 0,
                                         avg_buf_x := replicate XPT2046_AVG_SAMPLES 0,
                                         avg_buf_y := replicate XPT2046_AVG_SAMPLES 0,
                                         invalid_count := 0\<rparr>)
                              else Inr (False, out, s1))
                        else accept_sample (raw_x, raw_y) (s\<lparr>invalid_count := 0\<rparr>))
                  else accept_sample (raw_x, raw_y) s)))"

definition XPT2046_IsTouched :: "touch_bus \<Rightarrow> bool" where
  "XPT2046_IsTouched bus = XPT2046_IsPressed bus"

definition XPT2046_Calibrate :: "int \<Rightarrow> int \<Rightarrow> int \<Rightarrow> int \<Rightarrow> xpt2046 \<Rightarrow> xpt2046" where
  "XPT2046_Calibrate xmin ymin xmax ymax s =
     s\<lparr>calibration := \<lparr>x_min = xmin, y_min = ymin, x_max = xmax, y_max = ymax\<rparr>\<rparr>"

definition XPT2046_SetScreenSize :: "int \<Rightarrow> int \<Rightarrow> xpt2046 \<Rightarrow> xpt2046" where
  "XPT2046_SetScreenSize width height s = s\<lparr>screen_width := width, screen_height := height\<rparr>"

section \<open>The caller and the reference definitions of the specification\<close>

text \<open>
  The caller polls \<open>XPT2046_Read\<close> in a loop, once per bus cycle; \<open>poll\<close> runs the driver
  over a sequence of cycles and stops at the first fault.
\<close>

fun poll :: "touch_bus list \<Rightarrow> xpt2046 \<Rightarrow> fault + xpt2046" where
  "poll [] s = Inr s"
| "poll (bus # rest) s =
     (case XPT2046_Read bus (0, 0) s of
        Inl e \<Rightarrow> Inl e
      | Inr (touched, out, s') \<Rightarrow> poll rest s')"

text \<open>
  The variance gate in the words of the specification: the population variance of a batch
  around its median, and the batch reliable when it is within the ceiling on both axes.
\<close>

definition spec_population_variance :: "int list \<Rightarrow> int \<Rightarrow> int" where
  "spec_population_variance samples m = (\<Sum>v\<leftarrow>samples. (v - m) * (v - m)) div int (length samples)"

definition spec_is_reliable :: "int list \<Rightarrow> int \<Rightarrow> int list \<Rightarrow> int \<Rightarrow> bool" where
  "spec_is_reliable xs mx ys my \<longleftrightarrow>
     spec_population_variance xs mx \<le> 10000 \<and> spec_population_variance ys my \<le> 10000"

text \<open>
  The bytes with which the controller answers a conversion result \<open>v\<close>: the 12-bit value in
  bits 14 to 3 of the 16-bit frame.
\<close>

definition adc_frame :: "int \<Rightarrow> rx_data" where
  "adc_frame v = (word_of_int (push_bit 3 v div 256), word_of_int (push_bit 3 v))"

definition steady_bus :: "int \<Rightarrow> int \<Rightarrow> int \<Rightarrow> int \<Rightarrow> touch_bus" where
  "steady_bus z1 z2 x y =
     \<lparr>rx_z1 = adc_frame z1, rx_z2 = adc_frame z2,
      rx_x = (\<lambda>i. adc_frame x), rx_y = (\<lambda>i. adc_frame y)\<rparr>"

definition batch_bus :: "int \<Rightarrow> int \<Rightarrow> int list \<Rightarrow> int list \<Rightarrow> touch_bus" where
  "batch_bus z1 z2 xs ys =
     \<lparr>rx_z1 = adc_frame z1, rx_z2 = adc_frame z2,
      rx_x = (\<lambda>i. adc_frame (xs ! i)), rx_y = (\<lambda>i. adc_frame (ys ! i))\<rparr>"

text \<open>
  After \<open>n\<close> passes of the outer loop of the bubble sort the last \<open>n\<close> cells are in their
  final place: every cell from \<open>length t - n\<close> on is at least every cell before it.
\<close>

definition tail_sorted :: "nat \<Rightarrow> int list \<Rightarrow> bool" where
  "tail_sorted n t = (\<forall>a b. a < b \<and> b < length t \<and> length t - n \<le> b \<longrightarrow> t ! a \<le> t ! b)"

text \<open>
  One axis of \<open>XPT2046_ApplyCalibration\<close> in closed form, for the proofs: what the
  statements of the function compute when nothing overflows.
\<close>

definition axis_map :: "int \<Rightarrow> int \<Rightarrow> int \<Rightarrow> int \<Rightarrow> int" where
  "axis_map lo hi dim v = min (dim - 1) ((max lo (min hi v) - lo) * dim div (hi - lo))"

text \<open>
  A driver whose profile maps every raw point of the default 320 by 240 screen to itself,
  freshly initialised.
\<close>

definition unit_profile :: xpt2046 where
  "unit_profile = XPT2046_Calibrate 0 0 320 240 (XPT2046_Init power_on)"

text \<open>
  The state of that driver after a touch-down at the pixel \<open>(lx, ly)\<close> followed by \<open>n\<close>
  rejected jumps: one entry in the smoothing history, \<open>(lx, ly)\<close> the last valid point.
\<close>

definition tracking :: "int \<Rightarrow> int \<Rightarrow> nat \<Rightarrow> xpt2046" where
  "tracking lx ly n =
     unit_profile\<lparr>avg_buf_x := lx # replicate 9 0, avg_buf_y := ly # replicate 9 0,
       avg_count := 1, last_valid_x := lx, last_valid_y := ly, invalid_count := n\<rparr>"

section \<open>Conversions and the raw sampler\<close>

lemmas config_defs =
  XPT2046_X_MIN_def XPT2046_Y_MIN_def XPT2046_X_MAX_def XPT2046_Y_MAX_def
  XPT2046_X_INV_def XPT2046_Y_INV_def XPT2046_XY_SWAP_def
  XPT2046_TOUCH_THRESHOLD_def XPT2046_READ_SAMPLES_def XPT2046_AVG_SAMPLES_def
  XPT2046_JUMP_THRESHOLD_def XPT2046_MAX_INVALID_SAMPLES_def
  ST7789_WIDTH_def ST7789_HEIGHT_def

lemma int16_t_id: "- 32768 \<le> v \<Longrightarrow> v \<le> 32767 \<Longrightarrow> int16_t v = v"
  by (simp add: int16_t_def)

lemma int16_t_range: "- 32768 \<le> int16_t v \<and> int16_t v \<le> 32767"
proof -
  have "0 \<le> (v + 32768) mod 65536" and "(v + 32768) mod 65536 < 65536"
    by simp_all
  then show ?thesis
    unfolding int16_t_def by linarith
qed

lemma int32_t_id: "- 2147483648 \<le> v \<Longrightarrow> v \<le> 2147483647 \<Longrightarrow> int32_t v = v"
  by (simp add: int32_t_def)

lemma uint32_t_id: "0 \<le> v \<Longrightarrow> v < 4294967296 \<Longrightarrow> uint32_t v = v"
  by (simp add: uint32_t_def)

lemma sample_axis_range: "- 4096 \<le> sample_axis rx \<and> sample_axis rx \<le> 4095"
proof -
  let ?v = "XPT2046_SendCommand rx"
  have r: "- 32768 \<le> ?v \<and> ?v \<le> 32767"
    unfolding XPT2046_SendCommand_def by (rule int16_t_range)
  have d: "drop_bit 3 ?v = ?v div 8"
    by (simp add: drop_bit_eq_div)
  from r have "- 4096 \<le> ?v div 8 \<and> ?v div 8 \<le> 4095"
    by linarith
  with d show ?thesis
    unfolding sample_axis_def by (simp add: int16_t_id)
qed

lemma IsPressed_iff:
  "XPT2046_IsPressed bus \<longleftrightarrow>
     50 \<le> sample_axis (rx_z1 bus) \<and>
     sample_axis (rx_z2 bus) - sample_axis (rx_z1 bus) > XPT2046_TOUCH_THRESHOLD"
proof -
  have "int16_t (sample_axis (rx_z2 bus) - sample_axis (rx_z1 bus))
          = sample_axis (rx_z2 bus) - sample_axis (rx_z1 bus)"
    using sample_axis_range [of "rx_z1 bus"] sample_axis_range [of "rx_z2 bus"]
    by (intro int16_t_id) linarith+
  then show ?thesis
    by (auto simp: XPT2046_IsPressed_def Let_def)
qed

section \<open>The median filter\<close>

lemma length_bubble_swap [simp]: "length (bubble_swap j t) = length t"
  by (simp add: bubble_swap_def Let_def)

lemma mset_bubble_swap: "Suc j < length t \<Longrightarrow> mset (bubble_swap j t) = mset t"
  by (simp add: bubble_swap_def Let_def mset_swap)

lemma bubble_swap_nth:
  "Suc j < length t \<Longrightarrow>
   bubble_swap j t ! l =
     (if l = j then min (t ! j) (t ! Suc j)
      else if l = Suc j then max (t ! j) (t ! Suc j)
      else t ! l)"
  by (auto simp: bubble_swap_def Let_def nth_list_update)

text \<open>One pass of the inner loop over the cells \<open>0 .. k\<close>.\<close>

lemma bubble_pass_inv:
  "k < length t \<Longrightarrow>
   length (fold bubble_swap [0..<k] t) = length t \<and>
   mset (fold bubble_swap [0..<k] t) = mset t \<and>
   (\<forall>l<k. fold bubble_swap [0..<k] t ! l \<le> fold bubble_swap [0..<k] t ! k) \<and>
   (\<forall>l>k. fold bubble_swap [0..<k] t ! l = t ! l) \<and>
   (\<forall>l\<le>k. \<exists>l'\<le>k. fold bubble_swap [0..<k] t ! l = t ! l')"
proof (induction k)
  case 0
  then show ?case by simp
next
  case (Suc k)
  define u where "u = fold bubble_swap [0..<k] t"
  have k: "k < length t"
    using Suc.prems by simp
  note ih = Suc.IH [OF k, folded u_def]
  have sk: "Suc k < length u"
    using Suc.prems ih by simp
  have step: "fold bubble_swap [0..<Suc k] t = bubble_swap k u"
    by (simp add: u_def)
  have len: "length (bubble_swap k u) = length t"
    using ih by simp
  have ms: "mset (bubble_swap k u) = mset t"
    using ih sk by (simp add: mset_bubble_swap)
  have top: "\<forall>l<Suc k. bubble_swap k u ! l \<le> bubble_swap k u ! Suc k"
  proof (intro allI impI)
    fix l assume "l < Suc k"
    then consider "l = k" | "l < k" by linarith
    then show "bubble_swap k u ! l \<le> bubble_swap k u ! Suc k"
    proof cases
      case 1
      then show ?thesis by (simp add: bubble_swap_nth [OF sk])
    next
      case 2
      with ih have "u ! l \<le> u ! k" by blast
      with 2 show ?thesis by (simp add: bubble_swap_nth [OF sk])
    qed
  qed
  have rest: "\<forall>l>Suc k. bubble_swap k u ! l = t ! l"
    using ih by (simp add: bubble_swap_nth [OF sk])
  have prov: "\<forall>l\<le>Suc k. \<exists>l'\<le>Suc k. bubble_swap k u ! l = t ! l'"
  proof (intro allI impI)
    fix l assume l: "l \<le> Suc k"
    have a: "\<exists>l'\<le>Suc k. u ! k = t ! l'"
      using ih by (meson le_Suc_eq order_refl)
    have b: "\<exists>l'\<le>Suc k. u ! Suc k = t ! l'"
      using ih by (metis lessI order_refl)
    have c: "l < k \<Longrightarrow> \<exists>l'\<le>Suc k. u ! l = t ! l'"
      using ih by (meson le_Suc_eq less_imp_le)
    from l consider "l = k" | "l = Suc k" | "l < k" by linarith
    then show "\<exists>l'\<le>Suc k. bubble_swap k u ! l = t ! l'"
    proof cases
      case 1
      then show ?thesis using a b by (simp add: bubble_swap_nth [OF sk] min_def)
    next
      case 2
      then show ?thesis using a b by (simp add: bubble_swap_nth [OF sk] max_def)
    next
      case 3
      then show ?thesis using c by (simp add: bubble_swap_nth [OF sk])
    qed
  qed
  show ?case
    unfolding step using len ms top rest prov by blast
qed

lemma bubble_outer_inv:
  "n \<le> length t - 1 \<Longrightarrow>
   length (fold (bubble_inner (length t)) [0..<n] t) = length t \<and>
   mset (fold (bubble_inner (length t)) [0..<n] t) = mset t \<and>
   tail_sorted n (fold (bubble_inner (length t)) [0..<n] t)"
proof (induction n)
  case 0
  then show ?case by (simp add: tail_sorted_def)
next
  case (Suc n)
  define u where "u = fold (bubble_inner (length t)) [0..<n] t"
  define m where "m = length t - n - 1"
  have n: "n \<le> length t - 1" using Suc.prems by simp
  note ih = Suc.IH [OF n, folded u_def]
  have lu: "length u = length t" using ih by simp
  have m: "m < length u" "0 < m" "length u - Suc n = m" "length u - n = Suc m"
    using Suc.prems lu by (simp_all add: m_def)
  have step: "fold (bubble_inner (length t)) [0..<Suc n] t = fold bubble_swap [0..<m] u"
    by (simp add: u_def bubble_inner_def m_def)
  note p = bubble_pass_inv [OF m(1)]
  define w where "w = fold bubble_swap [0..<m] u"
  note q = p [folded w_def]
  have lw: "length w = length t" using q lu by simp
  have "tail_sorted (Suc n) w"
    unfolding tail_sorted_def
  proof (intro allI impI, elim conjE)
    fix a b assume ab: "a < b" and b: "b < length w" and nb: "length w - Suc n \<le> b"
    from nb have mb: "m \<le> b" using m lw lu by simp
    show "w ! a \<le> w ! b"
    proof (cases "b = m")
      case True
      with ab q show ?thesis by blast
    next
      case False
      with mb have bm: "m < b" by simp
      then have wb: "w ! b = u ! b" using q by blast
      have ub: "\<And>c. c < b \<Longrightarrow> u ! c \<le> u ! b"
        using ih bm b lw lu m unfolding tail_sorted_def by simp
      show ?thesis
      proof (cases "m < a")
        case True
        then have "w ! a = u ! a" using q by blast
        with wb ub [OF ab] show ?thesis by simp
      next
        case False
        then have "a \<le> m" by simp
        then obtain a' where a': "a' \<le> m" "w ! a = u ! a'" using q by blast
        from a' bm have "a' < b" by simp
        from ub [OF this] a' wb show ?thesis by simp
      qed
    qed
  qed
  with q lu ih show ?case
    unfolding step w_def by simp
qed

lemma bubble_sort_sort: "length t = sz \<Longrightarrow> bubble_sort sz t = sort t"
proof -
  assume l: "length t = sz"
  define u where "u = fold (bubble_inner (length t)) [0..<length t - 1] t"
  have inv: "length u = length t" "mset u = mset t" "tail_sorted (length t - 1) u"
    using bubble_outer_inv [of "length t - 1" t] by (simp_all add: u_def)
  have "sorted u"
    unfolding sorted_iff_nth_mono_less
  proof (intro allI impI)
    fix i j assume "i < j" "j < length u"
    moreover from this have "length u - (length t - 1) \<le> j"
      using inv(1) by simp
    ultimately show "u ! i \<le> u ! j"
      using inv(3) unfolding tail_sorted_def by blast
  qed
  with inv(2) have "sort t = u"
    by (intro properties_for_sort) simp_all
  then show ?thesis
    using l by (simp add: bubble_sort_def u_def)
qed

lemma median_filter_sort:
  "0 < sz \<Longrightarrow> sz \<le> XPT2046_READ_SAMPLES \<Longrightarrow> sz \<le> length data \<Longrightarrow>
   median_filter data sz = Inr (sort (take sz data) ! (sz div 2))"
  by (simp add: median_filter_def bubble_sort_sort)


lemma sort_mset_cong: "mset xs = mset ys \<Longrightarrow> sort xs = sort ys"
  by (rule properties_for_sort) simp_all

section \<open>The calibration mapper\<close>

lemma scale_exact:
  assumes "0 \<le> a" "a \<le> r" "0 < r" "r \<le> 32767" "0 < w" "w \<le> 32767"
  shows "int16_t (uint32_t (uint32_t a * uint32_t w) div uint32_t r) = a * w div r"
    and "0 \<le> a * w div r" and "a * w div r \<le> w"
proof -
  have aw: "0 \<le> a * w" using assms by simp
  have "a * w \<le> 32767 * 32767"
    using assms by (intro mult_mono) simp_all
  then have awu: "a * w < 4294967296" by simp
  have "a * w \<le> w * r"
    using assms by (simp add: mult.commute mult_left_mono)
  then have "a * w div r \<le> w * r div r"
    using assms(3) by (intro zdiv_mono1) simp_all
  then show q: "a * w div r \<le> w"
    using assms(3) by simp
  show p: "0 \<le> a * w div r"
    using aw assms(3) by (simp add: pos_imp_zdiv_nonneg_iff)
  have "uint32_t a = a" "uint32_t w = w" "uint32_t r = r"
    using assms by (simp_all add: uint32_t_id)
  moreover have "uint32_t (a * w) = a * w"
    using aw awu by (simp add: uint32_t_id)
  moreover have "int16_t (a * w div r) = a * w div r"
    using p q assms by (intro int16_t_id) simp_all
  ultimately show "int16_t (uint32_t (uint32_t a * uint32_t w) div uint32_t r) = a * w div r"
    by simp
qed

lemma clamp_axis:
  assumes "lo < hi" "hi - lo \<le> 32767"
  shows "int16_t ((if (if v < lo then lo else v) > hi then hi else (if v < lo then lo else v)) - lo)
           = max lo (min hi v) - lo"
    and "0 \<le> max lo (min hi v) - lo" and "max lo (min hi v) - lo \<le> hi - lo"
  using assms by (auto simp: int16_t_id max_def min_def)

lemma min_pred: "min (w - 1) q = (if w \<le> q then w - 1 else (q::int))"
  by (simp add: min_def)

lemma ApplyCalibration_axis_map:
  assumes "x_min (calibration s) < x_max (calibration s)"
    and "y_min (calibration s) < y_max (calibration s)"
    and "x_max (calibration s) - x_min (calibration s) \<le> 32767"
    and "y_max (calibration s) - y_min (calibration s) \<le> 32767"
    and "0 < screen_width s" "screen_width s \<le> 32767"
    and "0 < screen_height s" "screen_height s \<le> 32767"
  shows "XPT2046_ApplyCalibration s (rx, ry) =
           Inr (axis_map (x_min (calibration s)) (x_max (calibration s)) (screen_width s) rx,
                axis_map (y_min (calibration s)) (y_max (calibration s)) (screen_height s) ry)"
proof -
  let ?c = "calibration s"
  define ax where "ax = max (x_min ?c) (min (x_max ?c) rx) - x_min ?c"
  define ay where "ay = max (y_min ?c) (min (y_max ?c) ry) - y_min ?c"
  define qx where "qx = ax * screen_width s div (x_max ?c - x_min ?c)"
  define qy where "qy = ay * screen_height s div (y_max ?c - y_min ?c)"
  note cx = clamp_axis [OF assms(1) assms(3), of rx, folded ax_def]
  note cy = clamp_axis [OF assms(2) assms(4), of ry, folded ay_def]
  have rx: "0 < x_max ?c - x_min ?c" and ry: "0 < y_max ?c - y_min ?c"
    using assms by simp_all
  note sx = scale_exact [OF cx(2) cx(3) rx assms(3) assms(5) assms(6), folded qx_def]
  note sy = scale_exact [OF cy(2) cy(3) ry assms(4) assms(7) assms(8), folded qy_def]
  have iw: "int16_t (screen_width s) = screen_width s"
      "int16_t (screen_width s - 1) = screen_width s - 1"
      "int16_t (screen_height s) = screen_height s"
      "int16_t (screen_height s - 1) = screen_height s - 1"
    using assms(5-8) by (simp_all add: int16_t_id)
  have ux: "uint32_t (x_max ?c - x_min ?c) \<noteq> 0" and uy: "uint32_t (y_max ?c - y_min ?c) \<noteq> 0"
    using rx ry assms(3,4) by (simp_all add: uint32_t_id)
  have fx: "(if (if qx < 0 then 0 else qx) \<ge> screen_width s then screen_width s - 1
             else (if qx < 0 then 0 else qx)) = min (screen_width s - 1) qx"
    using sx(2,3) by (simp add: min_pred)
  have fy: "(if (if qy < 0 then 0 else qy) \<ge> screen_height s then screen_height s - 1
             else (if qy < 0 then 0 else qy)) = min (screen_height s - 1) qy"
    using sy(2,3) by (simp add: min_pred)
  have "XPT2046_ApplyCalibration s (rx, ry) =
          Inr ((if (if qx < 0 then 0 else qx) \<ge> screen_width s then screen_width s - 1
                else (if qx < 0 then 0 else qx)),
               (if (if qy < 0 then 0 else qy) \<ge> screen_height s then screen_height s - 1
                else (if qy < 0 then 0 else qy)))"
    unfolding XPT2046_ApplyCalibration_def Let_def XPT2046_XY_SWAP_def XPT2046_X_INV_def
      XPT2046_Y_INV_def
    using ux uy by (simp add: cx(1) cy(1) sx(1) sy(1) iw)
  then show ?thesis
    unfolding fx fy by (simp add: axis_map_def ax_def ay_def qx_def qy_def)
qed

lemma axis_map_lo:
  assumes "lo < hi" "0 < dim"
  shows "axis_map lo hi dim lo = 0"
proof -
  have "max lo (min hi lo) = lo"
    using assms(1) by linarith
  then show ?thesis
    using assms(2) unfolding axis_map_def by simp
qed

lemma axis_map_hi:
  assumes "lo < hi"
  shows "axis_map lo hi dim hi = dim - 1"
proof -
  have "max lo (min hi hi) = hi"
    using assms by linarith
  moreover have "(hi - lo) * dim div (hi - lo) = dim"
    using assms by simp
  ultimately show ?thesis
    unfolding axis_map_def by simp
qed

lemma axis_map_range:
  assumes "lo < hi" "0 < dim"
  shows "0 \<le> axis_map lo hi dim v \<and> axis_map lo hi dim v < dim"
proof -
  have "0 \<le> (max lo (min hi v) - lo) * dim"
    using assms by simp
  then have "0 \<le> (max lo (min hi v) - lo) * dim div (hi - lo)"
    using assms(1) by (simp add: pos_imp_zdiv_nonneg_iff)
  then show ?thesis
    using assms(2) by (simp add: axis_map_def)
qed

lemma screen_clamp_int16:
  "- 32768 \<le> (if (if int16_t q < 0 then 0 else int16_t q) \<ge> int16_t w then int16_t b
                else (if int16_t q < 0 then 0 else int16_t q)) \<and>
   (if (if int16_t q < 0 then 0 else int16_t q) \<ge> int16_t w then int16_t b
    else (if int16_t q < 0 then 0 else int16_t q)) \<le> 32767"
  using int16_t_range [of q] int16_t_range [of b] by simp

lemma ApplyCalibration_int16:
  assumes "XPT2046_ApplyCalibration s p = Inr (px, py)"
  shows "- 32768 \<le> px \<and> px \<le> 32767 \<and> - 32768 \<le> py \<and> py \<le> 32767"
proof -
  let ?c = "calibration s"
  have zx: "uint32_t (x_max ?c - x_min ?c) \<noteq> 0"
  proof
    assume "uint32_t (x_max ?c - x_min ?c) = 0"
    then have "XPT2046_ApplyCalibration s p = Inl DivideByZero"
      unfolding XPT2046_ApplyCalibration_def Let_def by (simp split: prod.splits)
    with assms show False by simp
  qed
  have zy: "uint32_t (y_max ?c - y_min ?c) \<noteq> 0"
  proof
    assume "uint32_t (y_max ?c - y_min ?c) = 0"
    then have "XPT2046_ApplyCalibration s p = Inl DivideByZero"
      unfolding XPT2046_ApplyCalibration_def Let_def by (simp split: prod.splits)
    with assms show False by simp
  qed
  obtain qx qy where eq:
    "XPT2046_ApplyCalibration s p =
       Inr ((if (if int16_t qx < 0 then 0 else int16_t qx) \<ge> int16_t (screen_width s)
             then int16_t (screen_width s - 1) else (if int16_t qx < 0 then 0 else int16_t qx)),
            (if (if int16_t qy < 0 then 0 else int16_t qy) \<ge> int16_t (screen_height s)
             then int16_t (screen_height s - 1) else (if int16_t qy < 0 then 0 else int16_t qy)))"
    unfolding XPT2046_ApplyCalibration_def Let_def XPT2046_XY_SWAP_def XPT2046_X_INV_def
      XPT2046_Y_INV_def
    using zx zy by (simp only: if_False split_def simp_thms)
  define fx where "fx = (if (if int16_t qx < 0 then 0 else int16_t qx) \<ge> int16_t (screen_width s)
             then int16_t (screen_width s - 1) else (if int16_t qx < 0 then 0 else int16_t qx))"
  define fy where "fy = (if (if int16_t qy < 0 then 0 else int16_t qy) \<ge> int16_t (screen_height s)
             then int16_t (screen_height s - 1) else (if int16_t qy < 0 then 0 else int16_t qy))"
  have bfx: "- 32768 \<le> fx \<and> fx \<le> 32767"
    unfolding fx_def by (rule screen_clamp_int16)
  have bfy: "- 32768 \<le> fy \<and> fy \<le> 32767"
    unfolding fy_def by (rule screen_clamp_int16)
  from eq have "XPT2046_ApplyCalibration s p = Inr (fx, fy)"
    unfolding fx_def fy_def .
  with assms have "px = fx" "py = fy"
    by simp_all
  with bfx bfy show ?thesis
    by simp
qed

section \<open>Averaging and filtering of a steady batch\<close>

lemma length_fold_update:
  "length (fold (\<lambda>i b. b[i := g b i]) js buf) = length buf"
  by (induction js arbitrary: buf) simp_all

lemma length_shift_down [simp]: "length (shift_down buf) = length buf"
  unfolding shift_down_def by (rule length_fold_update)

lemma shift_down_zero:
  "shift_down (replicate XPT2046_AVG_SAMPLES 0) = replicate XPT2046_AVG_SAMPLES 0"
  by code_simp

lemma Average_first:
  assumes "length (avg_buf_x s) = XPT2046_AVG_SAMPLES"
    and "length (avg_buf_y s) = XPT2046_AVG_SAMPLES"
    and "avg_count s = 0"
    and "- 32768 \<le> px" "px \<le> 32767" "- 32768 \<le> py" "py \<le> 32767"
  shows "XPT2046_Average s (px, py) =
           Inr ((px, py),
                s\<lparr>avg_buf_x := (shift_down (avg_buf_x s))[0 := px],
                  avg_buf_y := (shift_down (avg_buf_y s))[0 := py],
                  avg_count := 1\<rparr>)"
proof -
  have n: "uint8_t (Suc 0) = Suc 0"
    by (simp add: uint8_t_def)
  have sx: "sum_first (Suc 0) ((shift_down (avg_buf_x s))[0 := px]) = px"
    using assms(1,4,5) by (simp add: sum_first_def int32_t_id XPT2046_AVG_SAMPLES_def)
  have sy: "sum_first (Suc 0) ((shift_down (avg_buf_y s))[0 := py]) = py"
    using assms(2,6,7) by (simp add: sum_first_def int32_t_id XPT2046_AVG_SAMPLES_def)
  show ?thesis
    unfolding XPT2046_Average_def Let_def
    using assms by (simp add: n sx sy int16_t_id XPT2046_AVG_SAMPLES_def)
qed

lemma map_const_upt: "(\<forall>i<n. f i = a) \<Longrightarrow> map f [0..<n] = replicate n a"
  by (simp add: list_eq_iff_nth_eq)

lemma median_filter_const:
  "median_filter (replicate XPT2046_READ_SAMPLES a) XPT2046_READ_SAMPLES = Inr a"
proof -
  let ?n = "XPT2046_READ_SAMPLES"
  have "sort (replicate ?n a) ! (?n div 2) \<in> set (sort (replicate ?n a))"
    by (intro nth_mem) (simp add: XPT2046_READ_SAMPLES_def)
  then have "sort (replicate ?n a) ! (?n div 2) = a"
    by (simp split: if_splits)
  then show ?thesis
    using median_filter_sort [of ?n "replicate ?n a"] by (simp add: XPT2046_READ_SAMPLES_def)
qed

lemma fold_zero: "(\<forall>i\<in>set js. f i 0 = (0::int)) \<Longrightarrow> fold f js 0 = 0"
  by (induction js) simp_all

lemma sum_diff_const: "sum_diff (replicate XPT2046_READ_SAMPLES a) a = 0"
  unfolding sum_diff_def
  by (rule fold_zero) (simp add: int16_t_def int32_t_def Let_def)

lemma ReadFiltered_steady:
  assumes "\<forall>i<XPT2046_READ_SAMPLES. sample_axis (rx_x bus i) = a \<and> sample_axis (rx_y bus i) = b"
  shows "XPT2046_ReadFiltered bus = Inr (True, a, b)"
proof -
  have x: "map (\<lambda>i. sample_axis (rx_x bus i)) [0..<XPT2046_READ_SAMPLES]
             = replicate XPT2046_READ_SAMPLES a"
    and y: "map (\<lambda>i. sample_axis (rx_y bus i)) [0..<XPT2046_READ_SAMPLES]
             = replicate XPT2046_READ_SAMPLES b"
    using assms by (simp_all add: map_const_upt)
  show ?thesis
    unfolding XPT2046_ReadFiltered_def x y Let_def
    by (simp add: median_filter_const sum_diff_const int16_t_def)
qed

section \<open>The paths through the public read\<close>

lemma square_small:
  assumes "(d::int) * d \<le> 6401"
  shows "- 80 \<le> d \<and> d \<le> 80"
proof -
  have "\<not> 81 \<le> \<bar>d\<bar>"
  proof
    assume "81 \<le> \<bar>d\<bar>"
    then have "81 * 81 \<le> \<bar>d\<bar> * \<bar>d\<bar>"
      by (intro mult_mono) simp_all
    then have "6561 \<le> d * d"
      by simp
    with assms show False by simp
  qed
  then show ?thesis by linarith
qed

lemma distance_sq_exact:
  assumes "- 32767 \<le> dx" "dx \<le> 32767" "- 32767 \<le> dy" "dy \<le> 32767"
  shows "int32_t (int32_t (int32_t dx * int32_t dx) + int32_t (int32_t dy * int32_t dy))
           = dx * dx + dy * dy"
proof -
  have ax: "\<bar>dx\<bar> \<le> 32767" and ay: "\<bar>dy\<bar> \<le> 32767"
    using assms by simp_all
  have "\<bar>dx\<bar> * \<bar>dx\<bar> \<le> 32767 * 32767"
    using ax by (intro mult_mono) simp_all
  then have sx: "dx * dx \<le> 1073676289" "0 \<le> dx * dx"
    by simp_all
  have "\<bar>dy\<bar> * \<bar>dy\<bar> \<le> 32767 * 32767"
    using ay by (intro mult_mono) simp_all
  then have sy: "dy * dy \<le> 1073676289" "0 \<le> dy * dy"
    by simp_all
  have "int32_t dx = dx" "int32_t dy = dy"
    using assms by (simp_all add: int32_t_id)
  moreover have "int32_t (dx * dx) = dx * dx"
    using sx by (intro int32_t_id) linarith+
  moreover have "int32_t (dy * dy) = dy * dy"
    using sy by (intro int32_t_id) linarith+
  moreover have "int32_t (dx * dx + dy * dy) = dx * dx + dy * dy"
    using sx sy by (intro int32_t_id) linarith+
  ultimately show ?thesis by simp
qed

lemma threshold_sq: "int32_t (XPT2046_JUMP_THRESHOLD * XPT2046_JUMP_THRESHOLD) = 6400"
  by (simp add: XPT2046_JUMP_THRESHOLD_def int32_t_def)

text \<open>The four ways through \<open>XPT2046_Read\<close> once the batch is reliable and mapped.\<close>

lemma Read_first_touch:
  assumes "XPT2046_IsPressed bus" "XPT2046_ReadFiltered bus = Inr (True, mx, my)"
    and "XPT2046_ApplyCalibration s (mx, my) = Inr (px, py)"
    and "\<not> (0 \<le> last_valid_x s \<and> 0 \<le> last_valid_y s)"
  shows "XPT2046_Read bus out s = accept_sample (px, py) s"
  using assms by (auto simp: XPT2046_Read_def)

lemma Read_near:
  assumes "XPT2046_IsPressed bus" "XPT2046_ReadFiltered bus = Inr (True, mx, my)"
    and "XPT2046_ApplyCalibration s (mx, my) = Inr (px, py)"
    and "0 \<le> last_valid_x s" "0 \<le> last_valid_y s"
    and "- 32767 \<le> px - last_valid_x s" "px - last_valid_x s \<le> 32767"
    and "- 32767 \<le> py - last_valid_y s" "py - last_valid_y s \<le> 32767"
    and "(px - last_valid_x s) * (px - last_valid_x s)
           + (py - last_valid_y s) * (py - last_valid_y s) \<le> 6400"
  shows "XPT2046_Read bus out s = accept_sample (px, py) (s\<lparr>invalid_count := 0\<rparr>)"
  using assms(1-5,10)
  by (simp add: XPT2046_Read_def Let_def threshold_sq distance_sq_exact [OF assms(6-9)])

lemma Read_jump:
  assumes "XPT2046_IsPressed bus" "XPT2046_ReadFiltered bus = Inr (True, mx, my)"
    and "XPT2046_ApplyCalibration s (mx, my) = Inr (px, py)"
    and "0 \<le> last_valid_x s" "0 \<le> last_valid_y s"
    and "- 32767 \<le> px - last_valid_x s" "px - last_valid_x s \<le> 32767"
    and "- 32767 \<le> py - last_valid_y s" "py - last_valid_y s \<le> 32767"
    and "(px - last_valid_x s) * (px - last_valid_x s)
           + (py - last_valid_y s) * (py - last_valid_y s) > 6400"
  shows "XPT2046_Read bus out s =
           (if uint8_t (invalid_count s + 1) \<ge> XPT2046_MAX_INVALID_SAMPLES
            then accept_sample (px, py)
                   (s\<lparr>avg_count := 0,
                      avg_buf_x := replicate XPT2046_AVG_SAMPLES 0,
                      avg_buf_y := replicate XPT2046_AVG_SAMPLES 0,
                      invalid_count := 0\<rparr>)
            else Inr (False, out, s\<lparr>invalid_count := uint8_t (invalid_count s + 1)\<rparr>))"
  using assms(1-5,10)
  by (simp add: XPT2046_Read_def Let_def threshold_sq distance_sq_exact [OF assms(6-9)])

lemma accept_sample_fresh:
  assumes "length (avg_buf_x s) = XPT2046_AVG_SAMPLES"
    and "length (avg_buf_y s) = XPT2046_AVG_SAMPLES"
    and "avg_count s = 0"
    and "- 32768 \<le> px" "px \<le> 32767" "- 32768 \<le> py" "py \<le> 32767"
  shows "accept_sample (px, py) s =
           Inr (True, (px, py),
                s\<lparr>avg_buf_x := (shift_down (avg_buf_x s))[0 := px],
                  avg_buf_y := (shift_down (avg_buf_y s))[0 := py],
                  avg_count := 1, last_valid_x := px, last_valid_y := py\<rparr>)"
  by (simp add: accept_sample_def Average_first [OF assms])

lemma accept_sample_ok:
  assumes "length (avg_buf_x s) = XPT2046_AVG_SAMPLES"
    and "length (avg_buf_y s) = XPT2046_AVG_SAMPLES"
    and "avg_count s \<le> XPT2046_AVG_SAMPLES"
  shows "\<exists>a s'. accept_sample p s = Inr (True, a, s') \<and> invalid_count s' = invalid_count s"
  using assms unfolding accept_sample_def XPT2046_Average_def Let_def
  by (simp add: uint8_t_def XPT2046_AVG_SAMPLES_def)

lemma zero_buf_update:
  "(replicate XPT2046_AVG_SAMPLES 0)[0 := v] = v # replicate (XPT2046_AVG_SAMPLES - 1) (0::int)"
  by (simp add: XPT2046_AVG_SAMPLES_def eval_nat_numeral)

section \<open>Claims\<close>

subsection \<open>C1: calibrate and invalid bounds\<close>

text \<open>
  C1, as the specification states it, fails. \<open>XPT2046_Calibrate\<close> called with
  \<open>x_min = x_max = 100\<close> and \<open>y_min = y_max = 100\<close> is not rejected: the stored profile
  changes from the default to the violating one, and the next mapping reaches the division
  with a zero divisor.
\<close>

theorem calibrate_reject_counterexample:
  "x_min (calibration power_on) = 160 \<and>
   x_min (calibration (XPT2046_Calibrate 100 100 100 100 power_on)) = 100 \<and>
   x_max (calibration (XPT2046_Calibrate 100 100 100 100 power_on)) = 100 \<and>
   XPT2046_ApplyCalibration (XPT2046_Calibrate 100 100 100 100 power_on) (100, 100)
     = Inl DivideByZero"
  by (simp add: power_on_def XPT2046_Calibrate_def XPT2046_ApplyCalibration_def
      uint32_t_def config_defs)

text \<open>
  C1, amended: \<open>XPT2046_Calibrate\<close> performs no validation. For all arguments the stored
  profile becomes exactly the four arguments, and when \<open>x_min = x_max\<close> or \<open>y_min = y_max\<close>
  the mapper then divides by zero on every input.
\<close>

theorem calibrate_unchecked:
  "calibration (XPT2046_Calibrate xmin ymin xmax ymax s)
     = \<lparr>x_min = xmin, y_min = ymin, x_max = xmax, y_max = ymax\<rparr> \<and>
   (xmin = xmax \<or> ymin = ymax \<longrightarrow>
      XPT2046_ApplyCalibration (XPT2046_Calibrate xmin ymin xmax ymax s) p = Inl DivideByZero)"
  by (auto simp: XPT2046_Calibrate_def XPT2046_ApplyCalibration_def uint32_t_def Let_def
      split: prod.splits)

text \<open>C1, witness of the amended statement at the profile \<open>(100, 215, 100, 3910)\<close>.\<close>

theorem calibrate_unchecked_witness:
  "((100::int) = 100 \<or> (215::int) = 3910) \<and>
   calibration (XPT2046_Calibrate 100 215 100 3910 power_on)
     = \<lparr>x_min = 100, y_min = 215, x_max = 100, y_max = 3910\<rparr> \<and>
   XPT2046_ApplyCalibration (XPT2046_Calibrate 100 215 100 3910 power_on) (2000, 2000)
     = Inl DivideByZero"
  using calibrate_unchecked [of 100 215 100 3910 power_on "(2000, 2000)"] by simp

subsection \<open>C2: the invalid-sample counter along the variance-gate path\<close>

text \<open>
  C2 holds along the jump path and fails along the variance-gate path of the code. With a
  touch present and a batch whose X samples are \<open>0, 0, 0, 0, 200, 200, 200\<close> (variance 17142
  around the median 0), three reads bring \<open>invalid_count\<close> to 3; the branch at the ceiling
  clears \<open>avg_count\<close> and the last valid point and leaves \<open>invalid_count\<close> at 3. The fourth
  read brings it to 4, above the ceiling. The next accepted sample (a first touch-down,
  which skips the jump test) returns true and leaves \<open>invalid_count\<close> at 3.
\<close>

theorem invalid_count_past_ceiling:
  "poll (replicate 3 (batch_bus 100 700 [0, 0, 0, 0, 200, 200, 200] [0, 0, 0, 0, 0, 0, 0]))
      (XPT2046_Init power_on) = Inr ((XPT2046_Init power_on)\<lparr>invalid_count := 3\<rparr>) \<and>
   poll (replicate 4 (batch_bus 100 700 [0, 0, 0, 0, 200, 200, 200] [0, 0, 0, 0, 0, 0, 0]))
      (XPT2046_Init power_on) = Inr ((XPT2046_Init power_on)\<lparr>invalid_count := 4\<rparr>) \<and>
   XPT2046_Read (steady_bus 100 700 160 215) (7, 9) ((XPT2046_Init power_on)\<lparr>invalid_count := 3\<rparr>)
     = Inr (True, (0, 0),
            (XPT2046_Init power_on)\<lparr>avg_count := 1, last_valid_x := 0, last_valid_y := 0,
               invalid_count := 3\<rparr>)"
  by code_simp

subsection \<open>C3: the median filter\<close>

text \<open>
  C3, as the specification states it, fails. On the even-length array \<open>1, 2, 3, 4\<close> the
  filter returns 3, the upper of the two middle cells of the sorted order, not the lower
  middle 2. On an array of 8 cells the copy overruns \<open>temp[XPT2046_READ_SAMPLES]\<close>.
\<close>

theorem median_lower_middle_counterexample:
  "median_filter [1, 2, 3, 4] 4 = Inr 3 \<and>
   sort [1, 2, 3, 4 :: int] ! ((4 - 1) div 2) = 2 \<and>
   median_filter [1, 2, 3, 4, 5, 6, 7, 8] 8 = Inl OutOfBounds"
  by code_simp

text \<open>
  C3, amended: for every non-empty sample array of at most \<open>XPT2046_READ_SAMPLES\<close> (7) cells
  the median filter returns the cell at index \<open>size / 2\<close> of the ascending sort of a copy:
  the middle cell for an odd length, the upper middle cell for an even length. The result
  is the same for every reordering of the input. (\<open>median_filter\<close> only reads \<open>data\<close>; the
  sort works on \<open>temp\<close>.)
\<close>

theorem median_filter_middle:
  "data \<noteq> [] \<and> length data \<le> XPT2046_READ_SAMPLES \<Longrightarrow>
   median_filter data (length data) = Inr (sort data ! (length data div 2)) \<and>
   (\<forall>data'. mset data' = mset data \<longrightarrow>
      median_filter data' (length data') = median_filter data (length data))"
proof -
  assume a: "data \<noteq> [] \<and> length data \<le> XPT2046_READ_SAMPLES"
  then have m: "median_filter data (length data) = Inr (sort data ! (length data div 2))"
    using median_filter_sort [of "length data" data] by simp
  have "median_filter data' (length data') = median_filter data (length data)"
    if p: "mset data' = mset data" for data'
  proof -
    from p have l: "length data' = length data"
      by (rule mset_eq_length)
    with a have "median_filter data' (length data') = Inr (sort data' ! (length data' div 2))"
      using median_filter_sort [of "length data'" data'] by simp
    with m l sort_mset_cong [OF p] show ?thesis by simp
  qed
  with m show ?thesis by blast
qed

text \<open>
  C3, witness of the amended statement: a full batch of 7 with one extreme outlier, and a
  reordering of it.
\<close>

theorem median_filter_middle_witness:
  "[4095, 12, 10, 11, 13, 9, 14] \<noteq> ([] :: int list) \<and>
   length [4095, 12, 10, 11, 13, 9, 14 :: int] \<le> XPT2046_READ_SAMPLES \<and>
   median_filter [4095, 12, 10, 11, 13, 9, 14] 7 = Inr 12 \<and>
   median_filter [9, 10, 11, 12, 13, 14, 4095] 7 = Inr 12"
proof -
  have h: "[4095, 12, 10, 11, 13, 9, 14] \<noteq> ([] :: int list) \<and>
           length [4095, 12, 10, 11, 13, 9, 14 :: int] \<le> XPT2046_READ_SAMPLES"
    by (simp add: XPT2046_READ_SAMPLES_def)
  have p: "mset [9, 10, 11, 12, 13, 14, 4095] = mset [4095, 12, 10, 11, 13, 9, 14 :: int]"
    by simp
  have s: "sort [4095, 12, 10, 11, 13, 9, 14 :: int] ! (7 div 2) = 12"
    by code_simp
  have l: "length [4095, 12, 10, 11, 13, 9, 14 :: int] = 7"
    and l': "length [9, 10, 11, 12, 13, 14, 4095 :: int] = 7"
    by simp_all
  from median_filter_middle [OF h]
  have 1: "median_filter [4095, 12, 10, 11, 13, 9, 14] (length [4095, 12, 10, 11, 13, 9, 14 :: int])
             = Inr (sort [4095, 12, 10, 11, 13, 9, 14] ! (length [4095, 12, 10, 11, 13, 9, 14 :: int] div 2))"
    and 2: "\<forall>data'. mset data' = mset [4095, 12, 10, 11, 13, 9, 14 :: int] \<longrightarrow>
              median_filter data' (length data')
                = median_filter [4095, 12, 10, 11, 13, 9, 14] (length [4095, 12, 10, 11, 13, 9, 14 :: int])"
    by blast+
  from 1 s have 3: "median_filter [4095, 12, 10, 11, 13, 9, 14] 7 = Inr 12"
    unfolding l by simp
  from 2 [rule_format, OF p] 3 have 4: "median_filter [9, 10, 11, 12, 13, 14, 4095] 7 = Inr 12"
    unfolding l l' by simp
  from h 3 4 show ?thesis by blast
qed

subsection \<open>C4: a jump that reaches the ceiling\<close>

text \<open>
  C4, as the specification states it, fails: the reference point is not cleared. After a
  touch-down at \<open>(100, 100)\<close> and two rejected jumps to \<open>(300, 100)\<close>, the third jump to
  \<open>(300, 100)\<close> brings \<open>invalid_count\<close> to the ceiling; that same call returns true with
  \<open>(300, 100)\<close> and the last valid point after it is \<open>(300, 100)\<close>, not the empty value
  \<open>(-1, -1)\<close>.
\<close>

theorem jump_ceiling_counterexample:
  "poll [steady_bus 100 700 100 100, steady_bus 100 700 300 100, steady_bus 100 700 300 100]
      unit_profile = Inr (tracking 100 100 2) \<and>
   XPT2046_Read (steady_bus 100 700 300 100) (0, 0) (tracking 100 100 2)
     = Inr (True, (300, 100), tracking 300 100 0) \<and>
   last_valid_x (tracking 300 100 0) = 300 \<and> last_valid_y (tracking 300 100 0) = 100"
  by code_simp

text \<open>
  C4, amended: when a jump during \<open>XPT2046_Read\<close> makes \<open>invalid_count\<close> reach the ceiling,
  the smoothing history and \<open>invalid_count\<close> are cleared and the jumping sample itself is
  accepted in that same call as a fresh touch-down: the call returns true with the
  calibrated point unsmoothed, as the only entry of the history, and that point replaces
  the stale reference point. (The stored point is an \<open>int16_t\<close> pair and the calibrated
  point is on the screen, so that the squared distance is computed without overflow.)
\<close>

theorem jump_at_ceiling_is_new_touch:
  "XPT2046_IsPressed bus \<and> XPT2046_ReadFiltered bus = Inr (True, mx, my) \<and>
   XPT2046_ApplyCalibration s (mx, my) = Inr (px, py) \<and> 0 \<le> px \<and> 0 \<le> py \<and>
   0 \<le> last_valid_x s \<and> last_valid_x s \<le> 32767 \<and>
   0 \<le> last_valid_y s \<and> last_valid_y s \<le> 32767 \<and>
   (px - last_valid_x s) * (px - last_valid_x s) + (py - last_valid_y s) * (py - last_valid_y s)
     > XPT2046_JUMP_THRESHOLD * XPT2046_JUMP_THRESHOLD \<and>
   uint8_t (invalid_count s + 1) \<ge> XPT2046_MAX_INVALID_SAMPLES \<Longrightarrow>
   \<exists>s'. XPT2046_Read bus out s = Inr (True, (px, py), s') \<and>
        last_valid_x s' = px \<and> last_valid_y s' = py \<and>
        avg_count s' = 1 \<and> invalid_count s' = 0 \<and>
        avg_buf_x s' = px # replicate (XPT2046_AVG_SAMPLES - 1) 0 \<and>
        avg_buf_y s' = py # replicate (XPT2046_AVG_SAMPLES - 1) 0"
proof -
  assume a: "XPT2046_IsPressed bus \<and> XPT2046_ReadFiltered bus = Inr (True, mx, my) \<and>
   XPT2046_ApplyCalibration s (mx, my) = Inr (px, py) \<and> 0 \<le> px \<and> 0 \<le> py \<and>
   0 \<le> last_valid_x s \<and> last_valid_x s \<le> 32767 \<and>
   0 \<le> last_valid_y s \<and> last_valid_y s \<le> 32767 \<and>
   (px - last_valid_x s) * (px - last_valid_x s) + (py - last_valid_y s) * (py - last_valid_y s)
     > XPT2046_JUMP_THRESHOLD * XPT2046_JUMP_THRESHOLD \<and>
   uint8_t (invalid_count s + 1) \<ge> XPT2046_MAX_INVALID_SAMPLES"
  then have c: "XPT2046_ApplyCalibration s (mx, my) = Inr (px, py)" by simp
  note i = ApplyCalibration_int16 [OF c]
  define t where "t = s\<lparr>avg_count := 0,
                         avg_buf_x := replicate XPT2046_AVG_SAMPLES 0,
                         avg_buf_y := replicate XPT2046_AVG_SAMPLES 0,
                         invalid_count := 0\<rparr>"
  have "XPT2046_Read bus out s =
          (if uint8_t (invalid_count s + 1) \<ge> XPT2046_MAX_INVALID_SAMPLES
           then accept_sample (px, py) t
           else Inr (False, out, s\<lparr>invalid_count := uint8_t (invalid_count s + 1)\<rparr>))"
    unfolding t_def using a i
    by (intro Read_jump [where mx = mx and my = my]) (simp_all add: XPT2046_JUMP_THRESHOLD_def)
  then have "XPT2046_Read bus out s = accept_sample (px, py) t"
    using a by simp
  also have "\<dots> = Inr (True, (px, py),
                t\<lparr>avg_buf_x := (shift_down (avg_buf_x t))[0 := px],
                  avg_buf_y := (shift_down (avg_buf_y t))[0 := py],
                  avg_count := 1, last_valid_x := px, last_valid_y := py\<rparr>)"
    using i by (intro accept_sample_fresh) (simp_all add: t_def)
  finally show ?thesis
    by (simp add: t_def shift_down_zero zero_buf_update)
qed

text \<open>
  C4, witness: the third jump in a row from \<open>(100, 100)\<close> to \<open>(300, 100)\<close>.
\<close>

theorem jump_at_ceiling_is_new_touch_witness:
  "XPT2046_IsPressed (steady_bus 100 700 300 100) \<and>
   XPT2046_ReadFiltered (steady_bus 100 700 300 100) = Inr (True, 300, 100) \<and>
   XPT2046_ApplyCalibration (tracking 100 100 2) (300, 100) = Inr (300, 100) \<and>
   last_valid_x (tracking 100 100 2) = 100 \<and> last_valid_y (tracking 100 100 2) = 100 \<and>
   invalid_count (tracking 100 100 2) = 2 \<and>
   (\<exists>s'. XPT2046_Read (steady_bus 100 700 300 100) (7, 9) (tracking 100 100 2)
            = Inr (True, (300, 100), s') \<and>
         last_valid_x s' = 300 \<and> last_valid_y s' = 100 \<and> avg_count s' = 1 \<and>
         invalid_count s' = 0)"
proof -
  have h: "XPT2046_IsPressed (steady_bus 100 700 300 100) \<and>
     XPT2046_ReadFiltered (steady_bus 100 700 300 100) = Inr (True, 300, 100) \<and>
     XPT2046_ApplyCalibration (tracking 100 100 2) (300, 100) = Inr (300, 100) \<and>
     (0::int) \<le> 300 \<and> (0::int) \<le> 100 \<and>
     0 \<le> last_valid_x (tracking 100 100 2) \<and> last_valid_x (tracking 100 100 2) \<le> 32767 \<and>
     0 \<le> last_valid_y (tracking 100 100 2) \<and> last_valid_y (tracking 100 100 2) \<le> 32767 \<and>
     (300 - last_valid_x (tracking 100 100 2)) * (300 - last_valid_x (tracking 100 100 2))
       + (100 - last_valid_y (tracking 100 100 2)) * (100 - last_valid_y (tracking 100 100 2))
       > XPT2046_JUMP_THRESHOLD * XPT2046_JUMP_THRESHOLD \<and>
     uint8_t (invalid_count (tracking 100 100 2) + 1) \<ge> XPT2046_MAX_INVALID_SAMPLES"
    by code_simp
  have f: "last_valid_x (tracking 100 100 2) = 100" "last_valid_y (tracking 100 100 2) = 100"
      "invalid_count (tracking 100 100 2) = 2"
    by (simp_all add: tracking_def)
  from jump_at_ceiling_is_new_touch [OF h, of "(7, 9)"] h f show ?thesis
    by blast
qed

subsection \<open>C5: the boundary of the jump test\<close>

text \<open>
  C5, as the specification states it, fails: a point at squared distance
  \<open>threshold\<^sup>2 + 1\<close> is not always rejected. After a touch-down at \<open>(100, 100)\<close> and two
  rejected jumps, the point \<open>(180, 101)\<close>, at squared distance \<open>80\<^sup>2 + 1\<close>, brings
  \<open>invalid_count\<close> to the ceiling and \<open>XPT2046_Read\<close> returns true with it.
\<close>

theorem jump_boundary_counterexample:
  "poll [steady_bus 100 700 100 100, steady_bus 100 700 300 100, steady_bus 100 700 300 100]
      unit_profile = Inr (tracking 100 100 2) \<and>
   (180 - 100) * (180 - 100) + (101 - 100) * (101 - 100)
     = XPT2046_JUMP_THRESHOLD * XPT2046_JUMP_THRESHOLD + 1 \<and>
   XPT2046_Read (steady_bus 100 700 180 101) (0, 0) (tracking 100 100 2)
     = Inr (True, (180, 101), tracking 180 101 0)"
  by code_simp

text \<open>
  C5, amended: for every stored last valid point and every new calibrated point, the
  boundary of the jump test is exclusive. A new point at squared distance exactly
  \<open>threshold\<^sup>2\<close> is accepted (the read returns true and \<open>invalid_count\<close> is 0 after it). A
  point at squared distance \<open>threshold\<^sup>2 + 1\<close> is a jump: the read returns false, with
  \<open>invalid_count\<close> incremented, as long as the incremented count is below the ceiling 3;
  when it reaches the ceiling the point is accepted as a new touch. (The smoothing buffers
  have their declared size and \<open>avg_count\<close> is within it, as in every state the driver
  reaches.)
\<close>

theorem jump_boundary_exclusive:
  "XPT2046_IsPressed bus \<and> XPT2046_ReadFiltered bus = Inr (True, mx, my) \<and>
   XPT2046_ApplyCalibration s (mx, my) = Inr (px, py) \<and>
   0 \<le> last_valid_x s \<and> 0 \<le> last_valid_y s \<and>
   length (avg_buf_x s) = XPT2046_AVG_SAMPLES \<and> length (avg_buf_y s) = XPT2046_AVG_SAMPLES \<and>
   avg_count s \<le> XPT2046_AVG_SAMPLES \<Longrightarrow>
   ((px - last_valid_x s) * (px - last_valid_x s) + (py - last_valid_y s) * (py - last_valid_y s)
      = XPT2046_JUMP_THRESHOLD * XPT2046_JUMP_THRESHOLD \<longrightarrow>
    (\<exists>a s'. XPT2046_Read bus out s = Inr (True, a, s') \<and> invalid_count s' = 0)) \<and>
   ((px - last_valid_x s) * (px - last_valid_x s) + (py - last_valid_y s) * (py - last_valid_y s)
      = XPT2046_JUMP_THRESHOLD * XPT2046_JUMP_THRESHOLD + 1 \<longrightarrow>
    (if uint8_t (invalid_count s + 1) < XPT2046_MAX_INVALID_SAMPLES
     then XPT2046_Read bus out s
            = Inr (False, out, s\<lparr>invalid_count := uint8_t (invalid_count s + 1)\<rparr>)
     else \<exists>s'. XPT2046_Read bus out s = Inr (True, (px, py), s') \<and> invalid_count s' = 0))"
proof -
  assume a: "XPT2046_IsPressed bus \<and> XPT2046_ReadFiltered bus = Inr (True, mx, my) \<and>
   XPT2046_ApplyCalibration s (mx, my) = Inr (px, py) \<and>
   0 \<le> last_valid_x s \<and> 0 \<le> last_valid_y s \<and>
   length (avg_buf_x s) = XPT2046_AVG_SAMPLES \<and> length (avg_buf_y s) = XPT2046_AVG_SAMPLES \<and>
   avg_count s \<le> XPT2046_AVG_SAMPLES"
  then have p: "XPT2046_IsPressed bus" and r: "XPT2046_ReadFiltered bus = Inr (True, mx, my)"
    and c: "XPT2046_ApplyCalibration s (mx, my) = Inr (px, py)"
    and l: "0 \<le> last_valid_x s" "0 \<le> last_valid_y s"
    by simp_all
  note i = ApplyCalibration_int16 [OF c]
  define dx where "dx = px - last_valid_x s"
  define dy where "dy = py - last_valid_y s"
  have small: "- 32767 \<le> dx \<and> dx \<le> 32767 \<and> - 32767 \<le> dy \<and> dy \<le> 32767"
    if "dx * dx + dy * dy \<le> 6401"
  proof -
    have "dx * dx \<le> 6401" "dy * dy \<le> 6401"
      using that zero_le_square [of dx] zero_le_square [of dy] by linarith+
    then show ?thesis
      using square_small [of dx] square_small [of dy] by linarith
  qed
  have near: "\<exists>a s'. XPT2046_Read bus out s = Inr (True, a, s') \<and> invalid_count s' = 0"
    if d: "dx * dx + dy * dy = 6400"
  proof -
    have "XPT2046_Read bus out s = accept_sample (px, py) (s\<lparr>invalid_count := 0\<rparr>)"
      using p r c l small d unfolding dx_def dy_def by (intro Read_near) simp_all
    moreover have "\<exists>a s'. accept_sample (px, py) (s\<lparr>invalid_count := 0\<rparr>) = Inr (True, a, s')
        \<and> invalid_count s' = invalid_count (s\<lparr>invalid_count := 0\<rparr>)"
      using a by (intro accept_sample_ok) simp_all
    ultimately show ?thesis by simp
  qed
  have far: "(if uint8_t (invalid_count s + 1) < XPT2046_MAX_INVALID_SAMPLES
     then XPT2046_Read bus out s
            = Inr (False, out, s\<lparr>invalid_count := uint8_t (invalid_count s + 1)\<rparr>)
     else \<exists>s'. XPT2046_Read bus out s = Inr (True, (px, py), s') \<and> invalid_count s' = 0)"
    if d: "dx * dx + dy * dy = 6401"
  proof -
    define t where "t = s\<lparr>avg_count := 0,
                         avg_buf_x := replicate XPT2046_AVG_SAMPLES 0,
                         avg_buf_y := replicate XPT2046_AVG_SAMPLES 0,
                         invalid_count := 0\<rparr>"
    have j: "XPT2046_Read bus out s =
          (if uint8_t (invalid_count s + 1) \<ge> XPT2046_MAX_INVALID_SAMPLES
           then accept_sample (px, py) t
           else Inr (False, out, s\<lparr>invalid_count := uint8_t (invalid_count s + 1)\<rparr>))"
      using p r c l small d unfolding dx_def dy_def t_def by (intro Read_jump) simp_all
    have "accept_sample (px, py) t = Inr (True, (px, py),
                t\<lparr>avg_buf_x := (shift_down (avg_buf_x t))[0 := px],
                  avg_buf_y := (shift_down (avg_buf_y t))[0 := py],
                  avg_count := 1, last_valid_x := px, last_valid_y := py\<rparr>)"
      using i by (intro accept_sample_fresh) (simp_all add: t_def)
    with j show ?thesis
      by (simp add: t_def)
  qed
  from near far show ?thesis
    unfolding dx_def dy_def by (simp add: XPT2046_JUMP_THRESHOLD_def)
qed

text \<open>
  C5, witness: the last valid point \<open>(100, 100)\<close>, the new points \<open>(180, 100)\<close> at squared
  distance \<open>80\<^sup>2\<close> and \<open>(180, 101)\<close> at squared distance \<open>80\<^sup>2 + 1\<close>.
\<close>

theorem jump_boundary_exclusive_witness:
  "XPT2046_IsPressed (steady_bus 100 700 180 100) \<and>
   XPT2046_ReadFiltered (steady_bus 100 700 180 100) = Inr (True, 180, 100) \<and>
   XPT2046_ApplyCalibration (tracking 100 100 0) (180, 100) = Inr (180, 100) \<and>
   (180 - last_valid_x (tracking 100 100 0)) * (180 - last_valid_x (tracking 100 100 0))
     + (100 - last_valid_y (tracking 100 100 0)) * (100 - last_valid_y (tracking 100 100 0))
     = XPT2046_JUMP_THRESHOLD * XPT2046_JUMP_THRESHOLD \<and>
   (\<exists>a s'. XPT2046_Read (steady_bus 100 700 180 100) (7, 9) (tracking 100 100 0)
              = Inr (True, a, s') \<and> invalid_count s' = 0) \<and>
   XPT2046_IsPressed (steady_bus 100 700 180 101) \<and>
   XPT2046_ReadFiltered (steady_bus 100 700 180 101) = Inr (True, 180, 101) \<and>
   XPT2046_ApplyCalibration (tracking 100 100 0) (180, 101) = Inr (180, 101) \<and>
   (180 - last_valid_x (tracking 100 100 0)) * (180 - last_valid_x (tracking 100 100 0))
     + (101 - last_valid_y (tracking 100 100 0)) * (101 - last_valid_y (tracking 100 100 0))
     = XPT2046_JUMP_THRESHOLD * XPT2046_JUMP_THRESHOLD + 1 \<and>
   uint8_t (invalid_count (tracking 100 100 0) + 1) < XPT2046_MAX_INVALID_SAMPLES \<and>
   XPT2046_Read (steady_bus 100 700 180 101) (7, 9) (tracking 100 100 0)
     = Inr (False, (7, 9),
            (tracking 100 100 0)\<lparr>invalid_count := uint8_t (invalid_count (tracking 100 100 0) + 1)\<rparr>)"
proof -
  have h1: "XPT2046_IsPressed (steady_bus 100 700 180 100) \<and>
     XPT2046_ReadFiltered (steady_bus 100 700 180 100) = Inr (True, 180, 100) \<and>
     XPT2046_ApplyCalibration (tracking 100 100 0) (180, 100) = Inr (180, 100) \<and>
     0 \<le> last_valid_x (tracking 100 100 0) \<and> 0 \<le> last_valid_y (tracking 100 100 0) \<and>
     length (avg_buf_x (tracking 100 100 0)) = XPT2046_AVG_SAMPLES \<and>
     length (avg_buf_y (tracking 100 100 0)) = XPT2046_AVG_SAMPLES \<and>
     avg_count (tracking 100 100 0) \<le> XPT2046_AVG_SAMPLES"
    by code_simp
  have h2: "XPT2046_IsPressed (steady_bus 100 700 180 101) \<and>
     XPT2046_ReadFiltered (steady_bus 100 700 180 101) = Inr (True, 180, 101) \<and>
     XPT2046_ApplyCalibration (tracking 100 100 0) (180, 101) = Inr (180, 101) \<and>
     0 \<le> last_valid_x (tracking 100 100 0) \<and> 0 \<le> last_valid_y (tracking 100 100 0) \<and>
     length (avg_buf_x (tracking 100 100 0)) = XPT2046_AVG_SAMPLES \<and>
     length (avg_buf_y (tracking 100 100 0)) = XPT2046_AVG_SAMPLES \<and>
     avg_count (tracking 100 100 0) \<le> XPT2046_AVG_SAMPLES"
    by code_simp
  have d1: "(180 - last_valid_x (tracking 100 100 0)) * (180 - last_valid_x (tracking 100 100 0))
     + (100 - last_valid_y (tracking 100 100 0)) * (100 - last_valid_y (tracking 100 100 0))
     = XPT2046_JUMP_THRESHOLD * XPT2046_JUMP_THRESHOLD"
    by code_simp
  have d2: "(180 - last_valid_x (tracking 100 100 0)) * (180 - last_valid_x (tracking 100 100 0))
     + (101 - last_valid_y (tracking 100 100 0)) * (101 - last_valid_y (tracking 100 100 0))
     = XPT2046_JUMP_THRESHOLD * XPT2046_JUMP_THRESHOLD + 1"
    by code_simp
  have u: "uint8_t (invalid_count (tracking 100 100 0) + 1) < XPT2046_MAX_INVALID_SAMPLES"
    by code_simp
  from jump_boundary_exclusive [OF h1, of "(7, 9)"] jump_boundary_exclusive [OF h2, of "(7, 9)"]
    h1 h2 d1 d2 u
  show ?thesis
    by (simp split: if_splits)
qed

subsection \<open>C6: the variance gate\<close>

text \<open>
  C6 fails in the code by the type of \<open>std_dev_x\<close>: the quotient is stored in an
  \<open>int16_t\<close>. The batch with the X samples \<open>0, 0, 0, 0, 0, 0, 500\<close> has the population
  variance \<open>250000 / 7 = 35714\<close> around its median 0, above the ceiling 10000, and the
  specification's gate rejects it; in the code 35714 becomes \<open>-29822\<close>, the comparison with
  10000 is false and \<open>XPT2046_ReadFiltered\<close> accepts the batch.
\<close>

theorem variance_gate_wraps:
  "XPT2046_ReadFiltered (batch_bus 100 700 [0, 0, 0, 0, 0, 0, 500] [0, 0, 0, 0, 0, 0, 0])
     = Inr (True, 0, 0) \<and>
   spec_population_variance [0, 0, 0, 0, 0, 0, 500] 0 = 35714 \<and>
   \<not> spec_is_reliable [0, 0, 0, 0, 0, 0, 500] 0 [0, 0, 0, 0, 0, 0, 0] 0"
  by code_simp

subsection \<open>C7: the calibration mapper\<close>

text \<open>
  C7, as the specification states it, fails at the edges of the types. With the valid
  profile \<open>x_min = -32768 < x_max = 32767\<close> the subtraction \<open>*x -= x_min\<close> overflows
  \<open>int16_t\<close> and \<open>(x_max, y_max)\<close> is sent to column 0, not to \<open>width - 1 = 239\<close>. With a
  screen width of 40000 the cast \<open>(int16_t)screen_width\<close> is negative and the output column
  is \<open>-25537\<close>; with a screen width of 0 the point \<open>(x_min, y_min)\<close> is sent to column \<open>-1\<close>.
\<close>

theorem apply_calibration_counterexample:
  "XPT2046_ApplyCalibration
     (XPT2046_Calibrate (- 32768) 215 32767 3910 (XPT2046_SetScreenSize 240 320 power_on))
     (32767, 3910) = Inr (0, 319) \<and>
   XPT2046_ApplyCalibration (XPT2046_SetScreenSize 40000 320 power_on) (2000, 2000)
     = Inr (- 25537, 154) \<and>
   XPT2046_ApplyCalibration (XPT2046_SetScreenSize 0 320 power_on) (160, 215) = Inr (- 1, 0)"
  by code_simp

text \<open>
  C7, amended: under the default configuration (no swap, no invert), for a valid profile
  with \<open>x_min < x_max\<close> and \<open>y_min < y_max\<close> whose ranges \<open>x_max - x_min\<close> and
  \<open>y_max - y_min\<close> fit in \<open>int16_t\<close> (at most 32767), and a screen size with
  \<open>0 < width \<le> 32767\<close> and \<open>0 < height \<le> 32767\<close>, the mapper sends \<open>(x_min, y_min)\<close> to
  \<open>(0, 0)\<close> and \<open>(x_max, y_max)\<close> to \<open>(width - 1, height - 1)\<close>, and for every raw input,
  also out of range, its output lies in \<open>[0, width) \<times> [0, height)\<close>.
\<close>

theorem apply_calibration_corners_and_range:
  "x_min (calibration s) < x_max (calibration s) \<and>
   y_min (calibration s) < y_max (calibration s) \<and>
   x_max (calibration s) - x_min (calibration s) \<le> 32767 \<and>
   y_max (calibration s) - y_min (calibration s) \<le> 32767 \<and>
   0 < screen_width s \<and> screen_width s \<le> 32767 \<and>
   0 < screen_height s \<and> screen_height s \<le> 32767 \<Longrightarrow>
   XPT2046_ApplyCalibration s (x_min (calibration s), y_min (calibration s)) = Inr (0, 0) \<and>
   XPT2046_ApplyCalibration s (x_max (calibration s), y_max (calibration s))
     = Inr (screen_width s - 1, screen_height s - 1) \<and>
   (\<exists>px py. XPT2046_ApplyCalibration s (raw_x, raw_y) = Inr (px, py) \<and>
      0 \<le> px \<and> px < screen_width s \<and> 0 \<le> py \<and> py < screen_height s)"
  by (simp add: ApplyCalibration_axis_map axis_map_lo axis_map_hi axis_map_range)

text \<open>
  C7, witness: the default profile on a 240 by 320 screen, the two corners and the raw
  point \<open>(-4096, 4095)\<close> outside the profile.
\<close>

theorem apply_calibration_witness:
  "XPT2046_ApplyCalibration (XPT2046_SetScreenSize 240 320 power_on) (160, 215) = Inr (0, 0) \<and>
   XPT2046_ApplyCalibration (XPT2046_SetScreenSize 240 320 power_on) (3870, 3910) = Inr (239, 319) \<and>
   (\<exists>px py. XPT2046_ApplyCalibration (XPT2046_SetScreenSize 240 320 power_on) (- 4096, 4095)
        = Inr (px, py) \<and> 0 \<le> px \<and> px < 240 \<and> 0 \<le> py \<and> py < 320)"
  using apply_calibration_corners_and_range
          [of "XPT2046_SetScreenSize 240 320 power_on" "- 4096" 4095]
  by (simp add: XPT2046_SetScreenSize_def power_on_def config_defs)

subsection \<open>C8: end to end, a steady touch at the first corner\<close>

text \<open>
  C8: start from a freshly initialised driver with the profile
  \<open>x_min = 160, x_max = 3870, y_min = 215, y_max = 3910\<close> and a 240 by 320 screen. If the
  pressure plates read \<open>(100, 700)\<close> and every sample of the batch reads raw \<open>(160, 215)\<close>,
  then \<open>XPT2046_Read\<close> returns true and writes the point \<open>(0, 0)\<close>.
\<close>

theorem read_end_to_end:
  "sample_axis (rx_z1 bus) = 100 \<and> sample_axis (rx_z2 bus) = 700 \<and>
   (\<forall>i<XPT2046_READ_SAMPLES. sample_axis (rx_x bus i) = 160 \<and> sample_axis (rx_y bus i) = 215) \<Longrightarrow>
   \<exists>s'. XPT2046_Read bus out
          (XPT2046_SetScreenSize 240 320 (XPT2046_Calibrate 160 215 3870 3910 (XPT2046_Init s)))
        = Inr (True, (0, 0), s')"
proof -
  assume a: "sample_axis (rx_z1 bus) = 100 \<and> sample_axis (rx_z2 bus) = 700 \<and>
    (\<forall>i<XPT2046_READ_SAMPLES. sample_axis (rx_x bus i) = 160 \<and> sample_axis (rx_y bus i) = 215)"
  define t where
    "t = XPT2046_SetScreenSize 240 320 (XPT2046_Calibrate 160 215 3870 3910 (XPT2046_Init s))"
  have f: "x_min (calibration t) = 160" "y_min (calibration t) = 215"
      "x_max (calibration t) = 3870" "y_max (calibration t) = 3910"
      "screen_width t = 240" "screen_height t = 320"
      "last_valid_x t = - 1" "avg_count t = 0"
      "length (avg_buf_x t) = XPT2046_AVG_SAMPLES" "length (avg_buf_y t) = XPT2046_AVG_SAMPLES"
    by (simp_all add: t_def XPT2046_SetScreenSize_def XPT2046_Calibrate_def XPT2046_Init_def)
  have p: "XPT2046_IsPressed bus"
    using a by (simp add: IsPressed_iff XPT2046_TOUCH_THRESHOLD_def)
  have r: "XPT2046_ReadFiltered bus = Inr (True, 160, 215)"
    using a by (intro ReadFiltered_steady) simp
  have "XPT2046_ApplyCalibration t (x_min (calibration t), y_min (calibration t)) =
          Inr (axis_map (x_min (calibration t)) (x_max (calibration t)) (screen_width t)
                 (x_min (calibration t)),
               axis_map (y_min (calibration t)) (y_max (calibration t)) (screen_height t)
                 (y_min (calibration t)))"
    by (rule ApplyCalibration_axis_map) (simp_all add: f)
  then have c: "XPT2046_ApplyCalibration t (160, 215) = Inr (0, 0)"
    by (simp add: f axis_map_lo)
  have "XPT2046_Read bus out t = accept_sample (0, 0) t"
    using p r c by (rule Read_first_touch) (simp add: f)
  also have "\<dots> = Inr (True, (0, 0),
                t\<lparr>avg_buf_x := (shift_down (avg_buf_x t))[0 := 0],
                  avg_buf_y := (shift_down (avg_buf_y t))[0 := 0],
                  avg_count := 1, last_valid_x := 0, last_valid_y := 0\<rparr>)"
    by (rule accept_sample_fresh) (simp_all add: f)
  finally show ?thesis
    unfolding t_def by blast
qed

text \<open>C8, witness: the bus on which the controller answers exactly these readings.\<close>

theorem read_end_to_end_witness:
  "sample_axis (rx_z1 (steady_bus 100 700 160 215)) = 100 \<and>
   sample_axis (rx_z2 (steady_bus 100 700 160 215)) = 700 \<and>
   sample_axis (rx_x (steady_bus 100 700 160 215) 0) = 160 \<and>
   sample_axis (rx_y (steady_bus 100 700 160 215) 6) = 215 \<and>
   (\<exists>s'. XPT2046_Read (steady_bus 100 700 160 215) (7, 9)
            (XPT2046_SetScreenSize 240 320 (XPT2046_Calibrate 160 215 3870 3910
               (XPT2046_Init power_on)))
          = Inr (True, (0, 0), s'))"
proof -
  have s: "sample_axis (adc_frame 100) = 100" "sample_axis (adc_frame 700) = 700"
      "sample_axis (adc_frame 160) = 160" "sample_axis (adc_frame 215) = 215"
    by code_simp+
  then have h: "sample_axis (rx_z1 (steady_bus 100 700 160 215)) = 100 \<and>
      sample_axis (rx_z2 (steady_bus 100 700 160 215)) = 700 \<and>
      (\<forall>i<XPT2046_READ_SAMPLES. sample_axis (rx_x (steady_bus 100 700 160 215) i) = 160 \<and>
         sample_axis (rx_y (steady_bus 100 700 160 215) i) = 215)"
    by (simp add: steady_bus_def)
  from read_end_to_end [OF h, of "(7, 9)" power_on] s show ?thesis
    by (simp add: steady_bus_def)
qed

subsection \<open>C9: the pressure gate\<close>

text \<open>
  C9: the pressure gate returns false whenever the first plate reading \<open>z1\<close> is below 50,
  and otherwise reports a touch if and only if \<open>z2 - z1\<close> exceeds the threshold (500). With
  the plate readings \<open>(100, 150)\<close>, \<open>XPT2046_IsTouched\<close> is false and \<open>XPT2046_Read\<close> returns
  false, for every driver state and every X/Y traffic on the bus.
\<close>

theorem pressure_gate:
  "(sample_axis (rx_z1 bus) < 50 \<longrightarrow> \<not> XPT2046_IsPressed bus) \<and>
   (\<not> sample_axis (rx_z1 bus) < 50 \<longrightarrow>
      XPT2046_IsPressed bus =
        (sample_axis (rx_z2 bus) - sample_axis (rx_z1 bus) > XPT2046_TOUCH_THRESHOLD)) \<and>
   (sample_axis (rx_z1 bus) = 100 \<and> sample_axis (rx_z2 bus) = 150 \<longrightarrow>
      \<not> XPT2046_IsTouched bus \<and> (\<exists>s'. XPT2046_Read bus out s = Inr (False, out, s')))"
  by (auto simp: IsPressed_iff XPT2046_IsTouched_def XPT2046_Read_def
      XPT2046_TOUCH_THRESHOLD_def)

text \<open>
  C9, witness: the plate readings \<open>(100, 150)\<close> on the bus, and a first plate reading of 49
  with a large difference.
\<close>

theorem pressure_gate_witness:
  "sample_axis (rx_z1 (steady_bus 100 150 2000 2000)) = 100 \<and>
   sample_axis (rx_z2 (steady_bus 100 150 2000 2000)) = 150 \<and>
   \<not> XPT2046_IsTouched (steady_bus 100 150 2000 2000) \<and>
   (\<exists>s'. XPT2046_Read (steady_bus 100 150 2000 2000) (7, 9) power_on = Inr (False, (7, 9), s')) \<and>
   sample_axis (rx_z1 (steady_bus 49 4000 2000 2000)) < 50 \<and>
   \<not> XPT2046_IsPressed (steady_bus 49 4000 2000 2000)"
proof -
  have a: "sample_axis (rx_z1 (steady_bus 100 150 2000 2000)) = 100"
    and b: "sample_axis (rx_z2 (steady_bus 100 150 2000 2000)) = 150"
    and c: "sample_axis (rx_z1 (steady_bus 49 4000 2000 2000)) < 50"
    by code_simp+
  from a b c
    pressure_gate [of "steady_bus 100 150 2000 2000" "(7, 9)" power_on]
    pressure_gate [of "steady_bus 49 4000 2000 2000" "(7, 9)" power_on]
  show ?thesis by simp
qed

subsection \<open>C10: a failing read leaves the caller's variables alone\<close>

text \<open>
  C10: whenever \<open>XPT2046_Read\<close> returns false (no pressure, unreliable batch, or a jump
  rejected below the ceiling) the caller's \<open>*x\<close> and \<open>*y\<close> after the call are the values
  they had before it.
\<close>

theorem read_false_keeps_output:
  "XPT2046_Read bus out s = Inr (False, out', s') \<Longrightarrow> out' = out"
  unfolding XPT2046_Read_def accept_sample_def
  by (auto simp: Let_def split: if_splits sum.splits prod.splits)

text \<open>
  C10, witness: the three failing paths from a tracking state, the caller's variables
  holding \<open>(7, 9)\<close>: no pressure, an unreliable batch, a jump rejected below the ceiling.
\<close>

theorem read_false_keeps_output_witness:
  "(\<exists>out' s'. XPT2046_Read (steady_bus 100 150 2000 2000) (7, 9) (tracking 100 100 0)
        = Inr (False, out', s') \<and> out' = (7, 9)) \<and>
   (\<exists>out' s'. XPT2046_Read (batch_bus 100 700 [0, 0, 0, 0, 200, 200, 200] [0, 0, 0, 0, 0, 0, 0])
                 (7, 9) (tracking 100 100 0)
        = Inr (False, out', s') \<and> out' = (7, 9)) \<and>
   (\<exists>out' s'. XPT2046_Read (steady_bus 100 700 300 100) (7, 9) (tracking 100 100 0)
        = Inr (False, out', s') \<and> out' = (7, 9))"
proof -
  have h1: "XPT2046_Read (steady_bus 100 150 2000 2000) (7, 9) (tracking 100 100 0)
              = Inr (False, (7, 9), unit_profile)"
    by code_simp
  have h2: "XPT2046_Read (batch_bus 100 700 [0, 0, 0, 0, 200, 200, 200] [0, 0, 0, 0, 0, 0, 0])
              (7, 9) (tracking 100 100 0) = Inr (False, (7, 9), tracking 100 100 1)"
    by code_simp
  have h3: "XPT2046_Read (steady_bus 100 700 300 100) (7, 9) (tracking 100 100 0)
              = Inr (False, (7, 9), tracking 100 100 1)"
    by code_simp
  from read_false_keeps_output [OF h1] read_false_keeps_output [OF h2]
    read_false_keeps_output [OF h3] h1 h2 h3
  show ?thesis by blast
qed

end
